theory Spec2Isabelle
  imports Main
begin

section \<open>The record page of Hotspot: recordpage.cpp\<close>

text \<open>
  A shallow embedding of the functions of \<^verbatim>\<open>src/recordpage.cpp\<close>. Widgets are fields of
  a state record, every slot is a function from state to state, and the library calls
  whose results depend on the machine (file system, shell expansion, URL parsing) are the
  fields of an environment record that every slot takes as a parameter.
\<close>

subsection \<open>The CPU probe\<close>

text \<open>
  \<^verbatim>\<open>Solid::Processor::InstructionSet\<close> flags, and what \<^verbatim>\<open>isIntel\<close> reads of a
  \<^verbatim>\<open>Solid::Device\<close>: whether it is a processor, and the flags of that processor.
\<close>

datatype InstructionSet =
  IntelMmx | IntelSse | IntelSse2 | IntelSse3 | IntelSsse3 | IntelSse4 | IntelSse41 | IntelSse42
  | Amd3DNow | AltiVec

record Device =
  isProcessor :: bool
  instructionSets :: "InstructionSet list"

text \<open>
  \<^verbatim>\<open>list[i]\<close> on a \<^verbatim>\<open>const QList\<close>: the element when the index is in range. Out of range
  the library asserts (debug build) or reads outside the list (release build); the model makes
  that a fault value.
\<close>

datatype fault = IndexOutOfRange

definition listAt :: "'a list \<Rightarrow> nat \<Rightarrow> fault + 'a" where
  "listAt xs i = (if i < length xs then Inr (xs ! i) else Inl IndexOutOfRange)"

definition testFlag :: "InstructionSet list \<Rightarrow> InstructionSet \<Rightarrow> bool" where
  "testFlag flags f = (f \<in> set flags)"

text \<open>
  \<^verbatim>\<open>isIntel\<close>, lines 56 to 74. The parameter is the result of
  \<^verbatim>\<open>Solid::Device::listFromType(Processor)\<close>. The statement \<^verbatim>\<open>device = list[0]\<close> comes
  first, the test \<^verbatim>\<open>list.empty()\<close> second, as in the source.
\<close>

definition isIntel :: "Device list \<Rightarrow> fault + bool" where
  "isIntel list =
     (case listAt list 0 of
        Inl e \<Rightarrow> Inl e
      | Inr device \<Rightarrow>
          if list = [] \<or> \<not> isProcessor device then Inr False
          else
            let sets = instructionSets device in
            Inr (testFlag sets IntelMmx \<or> testFlag sets IntelSse \<or> testFlag sets IntelSse2
                 \<or> testFlag sets IntelSse3 \<or> testFlag sets IntelSsse3 \<or> testFlag sets IntelSse4
                 \<or> testFlag sets IntelSse41 \<or> testFlag sets IntelSse42))"

subsection \<open>Strings\<close>

text \<open>\<^verbatim>\<open>QString::endsWith\<close>, case sensitive.\<close>

definition endsWith :: "string \<Rightarrow> string \<Rightarrow> bool" where
  "endsWith s e = (length e \<le> length s \<and> drop (length s - length e) s = e)"

definition perfDataExtension :: string where
  "perfDataExtension = ''.data''"

subsection \<open>The configuration store and the history combo boxes\<close>

text \<open>
  A \<^verbatim>\<open>KConfigGroup\<close> entry is addressed by the path of its group and its key; the page
  stores single strings and string lists. Reading an entry that is absent, or of the other
  kind, gives the caller's default.
\<close>

datatype ConfigValue = ConfigString string | ConfigList "string list"

type_synonym KConfig = "string list \<times> string \<Rightarrow> ConfigValue option"

definition configGroup :: "string list" where
  "configGroup = [''RecordPage'']"

definition applicationConfig :: "string \<Rightarrow> string list" where
  "applicationConfig application = configGroup @ [''Application '' @ application]"

definition writeEntry :: "string list \<Rightarrow> string \<Rightarrow> ConfigValue \<Rightarrow> KConfig \<Rightarrow> KConfig" where
  "writeEntry grp key v cfg = cfg((grp, key) \<mapsto> v)"

definition readEntry :: "KConfig \<Rightarrow> string list \<Rightarrow> string \<Rightarrow> string \<Rightarrow> string" where
  "readEntry cfg grp key dflt = (case cfg (grp, key) of Some (ConfigString v) \<Rightarrow> v | _ \<Rightarrow> dflt)"

definition readListEntry :: "KConfig \<Rightarrow> string list \<Rightarrow> string \<Rightarrow> string list \<Rightarrow> string list" where
  "readListEntry cfg grp key dflt = (case cfg (grp, key) of Some (ConfigList vs) \<Rightarrow> vs | _ \<Rightarrow> dflt)"

text \<open>
  An editable \<^verbatim>\<open>QComboBox\<close>: its items, the current index (\<open>-1\<close> for none) and the text of
  its line edit, which is what \<^verbatim>\<open>currentText()\<close> returns.
\<close>

record QComboBox =
  comboItems :: "string list"
  currentIndex :: int
  editText :: string

definition MAX_COMBO_ENTRIES :: nat where
  "MAX_COMBO_ENTRIES = 10"

text \<open>\<^verbatim>\<open>findText\<close>: the index of the first item equal to the text, \<open>-1\<close> when there is none.\<close>

fun findText :: "string list \<Rightarrow> string \<Rightarrow> int" where
  "findText [] v = -1"
| "findText (x # xs) v =
     (if x = v then 0 else (let i = findText xs v in if i = -1 then -1 else i + 1))"

text \<open>\<^verbatim>\<open>removeItem\<close> does nothing for an index out of range.\<close>

definition removeItem :: "int \<Rightarrow> string list \<Rightarrow> string list" where
  "removeItem idx xs =
     (if 0 \<le> idx \<and> nat idx < length xs then take (nat idx) xs @ drop (Suc (nat idx)) xs else xs)"

definition insertItem :: "nat \<Rightarrow> string \<Rightarrow> string list \<Rightarrow> string list" where
  "insertItem i v xs = take i xs @ v # drop i xs"

text \<open>\<^verbatim>\<open>itemText\<close> is the empty string for an index out of range.\<close>

definition itemText :: "string list \<Rightarrow> nat \<Rightarrow> string" where
  "itemText xs i = (if i < length xs then xs ! i else [])"

text \<open>
  \<^verbatim>\<open>rememberCombobox\<close>, lines 117 to 137. The result is the combo box and the store after
  the call. \<^verbatim>\<open>setCurrentIndex(0)\<close> leaves the front item current and shown in the line edit.
\<close>

definition rememberCombobox ::
  "KConfig \<Rightarrow> string list \<Rightarrow> string \<Rightarrow> string \<Rightarrow> QComboBox \<Rightarrow> QComboBox \<times> KConfig" where
  "rememberCombobox cfg grp entryName v combo =
     (let idx = findText (comboItems combo) v;
          items1 = (if idx \<noteq> -1 then removeItem idx (comboItems combo) else comboItems combo);
          items2 = insertItem 0 v items1;
          combo' = combo\<lparr>comboItems := items2, currentIndex := 0, editText := itemText items2 0\<rparr>;
          c = min MAX_COMBO_ENTRIES (length items2);
          vals = map (itemText items2) [0..<c]
      in (combo', writeEntry grp entryName (ConfigList vals) cfg))"

text \<open>
  \<^verbatim>\<open>restoreCombobox\<close>, lines 139 to 147. Adding the first item to an empty editable combo box
  makes it current.
\<close>

definition restoreCombobox :: "KConfig \<Rightarrow> string list \<Rightarrow> string \<Rightarrow> string list \<Rightarrow> QComboBox" where
  "restoreCombobox cfg grp entryName dflts =
     (let vals = readListEntry cfg grp entryName dflts
      in \<lparr>comboItems = vals,
          currentIndex = (if vals = [] then -1 else 0),
          editText = itemText vals 0\<rparr>)"

subsection \<open>The process table\<close>

datatype ProcessState = Running | Sleeping | Zombie | OtherState string

record ProcessRecord =
  processId :: int
  procName :: string
  procState :: ProcessState

definition lookupProcess :: "int \<Rightarrow> ProcessRecord list \<Rightarrow> ProcessRecord option" where
  "lookupProcess p rs = find (\<lambda>r. processId r = p) rs"

text \<open>
  Modelled from the spec: \<^verbatim>\<open>ProcessModel::mergeProcesses\<close> is defined in
  \<^verbatim>\<open>processmodel.cpp\<close>, which is not among the sources. Section 3 of the specification:
  an incoming record whose processId exists in the table updates name and state of that row in
  place; an incoming record whose processId is new is inserted; a row whose processId is absent
  from the snapshot is removed; the rows that stay keep their relative order. New rows are
  put after the rows that stay, in the order of the snapshot (the specification leaves the
  place open).
\<close>

definition updateRow :: "ProcessRecord list \<Rightarrow> ProcessRecord \<Rightarrow> ProcessRecord option" where
  "updateRow incoming old =
     (case lookupProcess (processId old) incoming of
        None \<Rightarrow> None
      | Some new \<Rightarrow> Some (old\<lparr>procName := procName new, procState := procState new\<rparr>))"

definition mergeProcesses :: "ProcessRecord list \<Rightarrow> ProcessRecord list \<Rightarrow> ProcessRecord list" where
  "mergeProcesses current incoming =
     List.map_filter (updateRow incoming) current
     @ filter (\<lambda>new. lookupProcess (processId new) current = None) incoming"

subsection \<open>The environment of the page\<close>

text \<open>
  Library calls whose result depends on the machine: \<^verbatim>\<open>KShell::tildeExpand\<close>,
  \<^verbatim>\<open>KShell::splitArgs\<close>, \<^verbatim>\<open>QStandardPaths::findExecutable\<close>, the URL a
  \<^verbatim>\<open>KUrlRequester\<close> makes of its text, \<^verbatim>\<open>QUrl::isValid\<close>, \<^verbatim>\<open>QUrl::toLocalFile\<close>, and the
  queries of \<^verbatim>\<open>QFileInfo\<close> on a path. A URL is represented by its text.
\<close>

type_synonym QUrl = string

record Env =
  tildeExpand :: "string \<Rightarrow> string"
  splitArgs :: "string \<Rightarrow> string list"
  findExecutable :: "string \<Rightarrow> string"
  requesterUrl :: "string \<Rightarrow> QUrl"
  urlIsValid :: "QUrl \<Rightarrow> bool"
  toLocalFile :: "QUrl \<Rightarrow> string"
  fileExists :: "string \<Rightarrow> bool"
  fileIsFile :: "string \<Rightarrow> bool"
  fileIsDir :: "string \<Rightarrow> bool"
  fileIsExecutable :: "string \<Rightarrow> bool"
  fileIsWritable :: "string \<Rightarrow> bool"
  fileInfoPath :: "string \<Rightarrow> string"
  fileAbsolutePath :: "string \<Rightarrow> string"
  fileAbsoluteFilePath :: "string \<Rightarrow> string"

subsection \<open>The state of the page\<close>

datatype RecordType = LaunchApplication | AttachToProcess

datatype Page = launchAppPage | attachAppPage

text \<open>
  A selected index of the process view: the process id of the row it belongs to, its column,
  and the text of its \<^verbatim>\<open>ProcessModel::PIDRole\<close> data.
\<close>

record ModelIndex =
  indexProcessId :: int
  indexColumn :: int
  pidRoleData :: string

text \<open>The calls the page makes on its \<^verbatim>\<open>PerfRecord\<close>, in the order it makes them.\<close>

datatype PerfCall =
  RecordLaunch "string list" string string "string list" string
  | RecordAttach "string list" string "string list"
  | StopRecording

text \<open>
  The widgets of \<^verbatim>\<open>Ui::RecordPage\<close> that the slots read or write, and the members of the
  page. The snapshot requests handed to \<^verbatim>\<open>QtConcurrent::run\<close> are numbered: \<open>running\<close>
  holds the requests that have not returned yet, \<open>watched\<close> the request whose future the
  \<^verbatim>\<open>QFutureWatcher\<close> was last given. \<open>timers\<close> holds the due times of the pending single-shot
  timers, \<open>clock\<close> the time in milliseconds.
\<close>

record RecordPage =
  currentWidget :: Page
  recordType :: RecordType
  recordTypeEnabled :: bool
  applicationName :: QComboBox
  applicationParametersBox :: string
  workingDirectory :: string
  workingDirectoryPlaceholder :: string
  outputFile :: string
  eventTypeBox :: QComboBox
  callGraphData :: string
  errorMessageText :: string
  errorMessageVisible :: bool
  startEnabled :: bool
  startChecked :: bool
  startText :: string
  startIcon :: string
  viewResultsEnabled :: bool
  perfResultsText :: string
  perfResultsVisible :: bool
  perfResultsLabelVisible :: bool
  windowTitle :: string
  m_resultsFile :: string
  processes :: "ProcessRecord list"
  selectedIndexes :: "ModelIndex list"
  config :: KConfig
  perfRecord :: "PerfCall list"
  clock :: nat
  timers :: "nat list"
  running :: "nat list"
  watched :: "nat option"
  nextRequest :: nat

subsection \<open>The slots of the page\<close>

text \<open>
  Where a slot sets the text of a line edit or the checked state of the start button, and the
  constructor has connected the change signal of that widget to a slot of the page
  (\<^verbatim>\<open>textChanged\<close>, \<^verbatim>\<open>toggled\<close>), the connected slot runs inside the setter when the value
  changes. The same holds where a call changes what an item view shows: when
  \<^verbatim>\<open>rememberCombobox\<close> has made another text current in the application combo box, the slot
  connected to its line edit (line 197) runs; when a merge removes selected rows of the process
  view, the slot connected to \<^verbatim>\<open>selectionChanged\<close> (lines 306 to 309) runs. The signals of
  the single steps inside \<^verbatim>\<open>rememberCombobox\<close> are not followed. \<^verbatim>\<open>tr\<close> is taken as the
  identity. The size policies of \<^verbatim>\<open>updateStackedSizePolicy\<close> are layout only and have no
  field.
\<close>

text \<open>\<^verbatim>\<open>updateStartRecordingButtonState\<close>, lines 76 to 86.\<close>

definition updateStartRecordingButtonState :: "Env \<Rightarrow> RecordPage \<Rightarrow> RecordPage" where
  "updateStartRecordingButtonState env s =
     (let enabled0 =
            (if currentWidget s = launchAppPage
             then urlIsValid env (requesterUrl env (editText (applicationName s)))
             else selectedIndexes s \<noteq> []);
          enabled = (enabled0 \<and> errorMessageText s = [])
      in s\<lparr>startEnabled := enabled\<rparr>)"

text \<open>
  The slot of \<^verbatim>\<open>selectionChanged\<close> of the process view, lines 306 to 309, when the selection
  has become \<open>sel\<close>.
\<close>

definition onSelectionChanged :: "Env \<Rightarrow> ModelIndex list \<Rightarrow> RecordPage \<Rightarrow> RecordPage" where
  "onSelectionChanged env sel s = updateStartRecordingButtonState env (s\<lparr>selectedIndexes := sel\<rparr>)"

text \<open>\<^verbatim>\<open>showRecordPage\<close>, lines 331 to 340.\<close>

definition showRecordPage :: "RecordPage \<Rightarrow> RecordPage" where
  "showRecordPage s =
     s\<lparr>windowTitle := ''Hotspot - Record'',
       m_resultsFile := [],
       errorMessageVisible := False,
       perfResultsText := [],
       perfResultsVisible := False,
       perfResultsLabelVisible := False,
       viewResultsEnabled := False\<rparr>"

text \<open>\<^verbatim>\<open>onWorkingDirectoryNameChanged\<close>, lines 418 to 433.\<close>

definition onWorkingDirectoryNameChanged :: "Env \<Rightarrow> string \<Rightarrow> RecordPage \<Rightarrow> RecordPage" where
  "onWorkingDirectoryNameChanged env folderPath s =
     (let folder = toLocalFile env (requesterUrl env (workingDirectory s));
          s1 = (if \<not> fileExists env folder then
                  s\<lparr>errorMessageText := ''Working directory folder cannot be found: '' @ folderPath\<rparr>
                else if \<not> fileIsDir env folder then
                  s\<lparr>errorMessageText := ''Working directory folder is not valid: '' @ folderPath\<rparr>
                else if \<not> fileIsWritable env folder then
                  s\<lparr>errorMessageText := ''Working directory folder is not writable: '' @ folderPath\<rparr>
                else s\<lparr>errorMessageText := []\<rparr>);
          s2 = s1\<lparr>errorMessageVisible := (errorMessageText s1 \<noteq> [])\<rparr>
      in updateStartRecordingButtonState env s2)"

text \<open>\<^verbatim>\<open>ui->workingDirectory->setText\<close>, with the slot connected to \<^verbatim>\<open>textChanged\<close>.\<close>

definition setWorkingDirectoryText :: "Env \<Rightarrow> string \<Rightarrow> RecordPage \<Rightarrow> RecordPage" where
  "setWorkingDirectoryText env t s =
     (if workingDirectory s = t then s
      else onWorkingDirectoryNameChanged env t (s\<lparr>workingDirectory := t\<rparr>))"

text \<open>\<^verbatim>\<open>onApplicationNameChanged\<close>, lines 397 to 416.\<close>

definition onApplicationNameChanged :: "Env \<Rightarrow> string \<Rightarrow> RecordPage \<Rightarrow> RecordPage" where
  "onApplicationNameChanged env filePath s =
     (let application = findExecutable env (tildeExpand env filePath);
          s1 = (if \<not> fileExists env application then
                  s\<lparr>errorMessageText := ''Application file cannot be found: '' @ filePath\<rparr>
                else if \<not> fileIsFile env application then
                  s\<lparr>errorMessageText := ''Application file is not valid: '' @ filePath\<rparr>
                else if \<not> fileIsExecutable env application then
                  s\<lparr>errorMessageText := ''Application file is not executable: '' @ filePath\<rparr>
                else
                  (let cfg = config s;
                       grp = applicationConfig filePath;
                       sa = setWorkingDirectoryText env (readEntry cfg grp ''workingDir'' []) s
                   in sa\<lparr>applicationParametersBox := readEntry cfg grp ''params'' [],
                         workingDirectoryPlaceholder := fileInfoPath env application,
                         errorMessageText := []\<rparr>));
          s2 = s1\<lparr>errorMessageVisible := (errorMessageText s1 \<noteq> [])\<rparr>
      in updateStartRecordingButtonState env s2)"

text \<open>\<^verbatim>\<open>onOutputFileNameChanged\<close>, lines 440 to 460. The slot does not read its parameter.\<close>

definition onOutputFileNameChanged :: "Env \<Rightarrow> string \<Rightarrow> RecordPage \<Rightarrow> RecordPage" where
  "onOutputFileNameChanged env unused s =
     (let file = toLocalFile env (requesterUrl env (outputFile s));
          folder = fileAbsolutePath env file;
          s1 = (if \<not> fileExists env folder then
                  s\<lparr>errorMessageText :=
                      ''Output file directory folder cannot be found: '' @ fileInfoPath env folder\<rparr>
                else if \<not> fileIsDir env folder then
                  s\<lparr>errorMessageText :=
                      ''Output file directory folder is not valid: '' @ fileInfoPath env folder\<rparr>
                else if \<not> fileIsWritable env folder then
                  s\<lparr>errorMessageText :=
                      ''Output file directory folder is not writable: '' @ fileInfoPath env folder\<rparr>
                else if \<not> endsWith (fileAbsoluteFilePath env file) perfDataExtension then
                  s\<lparr>errorMessageText := ''Output file must end with '' @ perfDataExtension\<rparr>
                else s\<lparr>errorMessageText := []\<rparr>);
          s2 = s1\<lparr>errorMessageVisible := (errorMessageText s1 \<noteq> [])\<rparr>
      in updateStartRecordingButtonState env s2)"

text \<open>\<^verbatim>\<open>ui->outputFile->setText\<close>, with the slot connected to \<^verbatim>\<open>textChanged\<close>.\<close>

definition setOutputFileText :: "Env \<Rightarrow> string \<Rightarrow> RecordPage \<Rightarrow> RecordPage" where
  "setOutputFileText env t s =
     (if outputFile s = t then s
      else onOutputFileNameChanged env t (s\<lparr>outputFile := t\<rparr>))"

text \<open>\<^verbatim>\<open>onOutputFileNameSelected\<close>, lines 462 to 469.\<close>

definition onOutputFileNameSelected :: "Env \<Rightarrow> string \<Rightarrow> RecordPage \<Rightarrow> RecordPage" where
  "onOutputFileNameSelected env filePath s =
     (if \<not> endsWith filePath perfDataExtension
      then setOutputFileText env (filePath @ perfDataExtension) s
      else s)"

text \<open>\<^verbatim>\<open>onOutputFileUrlChanged\<close>, lines 471 to 474.\<close>

definition onOutputFileUrlChanged :: "Env \<Rightarrow> QUrl \<Rightarrow> RecordPage \<Rightarrow> RecordPage" where
  "onOutputFileUrlChanged env fileUrl s = onOutputFileNameSelected env (toLocalFile env fileUrl) s"

text \<open>
  \<^verbatim>\<open>rememberApplication\<close>, lines 149 to 160, on the combo box of the application field. The
  entries of the application are written first; when \<^verbatim>\<open>rememberCombobox\<close> has changed the text
  of the line edit, \<^verbatim>\<open>onApplicationNameChanged\<close> runs with the new text and reads them back
  (the comment of lines 152 and 153).
\<close>

definition rememberApplication ::
  "Env \<Rightarrow> string \<Rightarrow> string \<Rightarrow> string \<Rightarrow> RecordPage \<Rightarrow> RecordPage" where
  "rememberApplication env application appParameters workingDir s =
     (let grp = applicationConfig application;
          cfg1 = writeEntry grp ''params'' (ConfigString appParameters) (config s);
          cfg2 = writeEntry grp ''workingDir'' (ConfigString workingDir) cfg1;
          (combo, cfg3) = rememberCombobox cfg2 configGroup ''applications'' application (applicationName s);
          s1 = s\<lparr>applicationName := combo, config := cfg3\<rparr>
      in if editText combo = editText (applicationName s) then s1
         else onApplicationNameChanged env (editText combo) s1)"

text \<open>\<^verbatim>\<open>onStartRecordingButtonClicked\<close>, lines 342 to 395.\<close>

definition onStartRecordingButtonClicked :: "Env \<Rightarrow> bool \<Rightarrow> RecordPage \<Rightarrow> RecordPage" where
  "onStartRecordingButtonClicked env checked s =
     (if checked then
        (let s1 = showRecordPage s;
             s2 = s1\<lparr>startIcon := ''media-playback-stop'', startText := ''Stop Recording''\<rparr>;
             callGraphOption = callGraphData s2;
             s3 = s2\<lparr>config := writeEntry configGroup ''callGraph'' (ConfigString callGraphOption) (config s2)\<rparr>;
             perfOptions1 = (if callGraphOption \<noteq> [] then [''--call-graph'', callGraphOption] else []);
             eventType = editText (eventTypeBox s3);
             (combo, cfg) = rememberCombobox (config s3) configGroup ''eventType'' eventType (eventTypeBox s3);
             s4 = s3\<lparr>eventTypeBox := combo, config := cfg\<rparr>;
             perfOptions = perfOptions1 @ (if eventType \<noteq> [] then [''--event'', eventType] else []);
             s6 = (if recordType s4 = LaunchApplication then
                     (let application = tildeExpand env (editText (applicationName s4));
                          appParameters = applicationParametersBox s4;
                          workingDir = (if workingDirectory s4 = []
                                        then workingDirectoryPlaceholder s4
                                        else workingDirectory s4);
                          s5 = rememberApplication env application appParameters workingDir s4
                      in s5\<lparr>perfRecord := perfRecord s5 @
                              [RecordLaunch perfOptions
                                 (toLocalFile env (requesterUrl env (outputFile s5)))
                                 application (splitArgs env appParameters) workingDir]\<rparr>)
                   else
                     (let pids = map pidRoleData
                                   (filter (\<lambda>item. indexColumn item = 0) (selectedIndexes s4))
                      in s4\<lparr>perfRecord := perfRecord s4 @
                              [RecordAttach perfOptions
                                 (toLocalFile env (requesterUrl env (outputFile s4))) pids]\<rparr>))
         in s6\<lparr>recordTypeEnabled := False\<rparr>)
      else
        s\<lparr>startIcon := ''media-playback-start'',
          startText := ''Start Recording'',
          perfRecord := perfRecord s @ [StopRecording],
          recordTypeEnabled := True\<rparr>)"

text \<open>\<^verbatim>\<open>ui->startRecordingButton->setChecked\<close>, with the slot connected to \<^verbatim>\<open>toggled\<close>.\<close>

definition setStartChecked :: "Env \<Rightarrow> bool \<Rightarrow> RecordPage \<Rightarrow> RecordPage" where
  "setStartChecked env c s =
     (if startChecked s = c then s
      else onStartRecordingButtonClicked env c (s\<lparr>startChecked := c\<rparr>))"

text \<open>The slot of \<^verbatim>\<open>PerfRecord::recordingFinished\<close>, lines 267 to 274.\<close>

definition recordingFinished :: "Env \<Rightarrow> string \<Rightarrow> RecordPage \<Rightarrow> RecordPage" where
  "recordingFinished env fileLocation s =
     (let s1 = setStartChecked env False s
      in s1\<lparr>errorMessageVisible := False,
            m_resultsFile := fileLocation,
            viewResultsEnabled := True,
            recordTypeEnabled := True\<rparr>)"

text \<open>The slot of \<^verbatim>\<open>PerfRecord::recordingFailed\<close>, lines 276 to 283.\<close>

definition recordingFailed :: "Env \<Rightarrow> string \<Rightarrow> RecordPage \<Rightarrow> RecordPage" where
  "recordingFailed env errorMessage s =
     (let s1 = setStartChecked env False s
      in s1\<lparr>errorMessageText := errorMessage,
            errorMessageVisible := True,
            viewResultsEnabled := False,
            recordTypeEnabled := True\<rparr>)"

text \<open>The slot of \<^verbatim>\<open>PerfRecord::recordingOutput\<close>, lines 285 to 291.\<close>

definition recordingOutput :: "string \<Rightarrow> RecordPage \<Rightarrow> RecordPage" where
  "recordingOutput outputMessage s =
     s\<lparr>perfResultsText := perfResultsText s @ outputMessage,
       perfResultsVisible := True,
       perfResultsLabelVisible := True\<rparr>"

subsection \<open>Polling the process list\<close>

text \<open>
  \<^verbatim>\<open>updateProcesses\<close>, lines 476 to 479: a new request is handed to the thread pool, and the
  watcher is given its future in place of the one it had.
\<close>

definition updateProcesses :: "RecordPage \<Rightarrow> RecordPage" where
  "updateProcesses s =
     s\<lparr>running := running s @ [nextRequest s],
       watched := Some (nextRequest s),
       nextRequest := Suc (nextRequest s)\<rparr>"

text \<open>
  Modelled from the spec: what \<^verbatim>\<open>m_processModel->mergeProcesses\<close> (\<^verbatim>\<open>processmodel.cpp\<close>, not
  among the sources) does to the selection of the process view. Section 8 of the
  specification: the selection of a row that the merge removes is dropped, the selection of
  the rows that stay is kept. The selection model sends \<^verbatim>\<open>selectionChanged\<close> when selected rows
  have gone, on whatever page is shown, and the slot of lines 306 to 309 runs.
\<close>

definition mergeIntoProcessModel :: "Env \<Rightarrow> ProcessRecord list \<Rightarrow> RecordPage \<Rightarrow> RecordPage" where
  "mergeIntoProcessModel env result s =
     (let table = mergeProcesses (processes s) result;
          sel = filter (\<lambda>item. lookupProcess (indexProcessId item) table \<noteq> None)
                  (selectedIndexes s);
          s1 = s\<lparr>processes := table\<rparr>
      in if sel = selectedIndexes s then s1 else onSelectionChanged env sel s1)"

text \<open>
  \<^verbatim>\<open>updateProcessesFinished\<close>, lines 481 to 490. The parameter is \<^verbatim>\<open>m_watcher->result()\<close>.
  \<^verbatim>\<open>QTimer::singleShot(1000, ...)\<close> adds a timer due 1000 ms from now.
\<close>

definition updateProcessesFinished :: "Env \<Rightarrow> ProcessRecord list \<Rightarrow> RecordPage \<Rightarrow> RecordPage" where
  "updateProcessesFinished env result s =
     (let s1 = mergeIntoProcessModel env result s
      in if currentWidget s1 = attachAppPage then
           (let s2 = updateStartRecordingButtonState env s1
            in s2\<lparr>timers := timers s2 @ [clock s2 + 1000]\<rparr>)
         else s1)"

text \<open>The slot of \<^verbatim>\<open>recordTypeComboBox::currentIndexChanged\<close>, lines 211 to 227.\<close>

definition onRecordTypeChanged :: "Env \<Rightarrow> RecordType \<Rightarrow> RecordPage \<Rightarrow> RecordPage" where
  "onRecordTypeChanged env index s =
     (let s1 = (case index of
                  LaunchApplication \<Rightarrow> s\<lparr>currentWidget := launchAppPage\<rparr>
                | AttachToProcess \<Rightarrow> updateProcesses (s\<lparr>currentWidget := attachAppPage\<rparr>))
      in updateStartRecordingButtonState env s1)"

subsection \<open>Events\<close>

text \<open>
  What reaches the page from outside: the actions of the user on its widgets, the signals of
  the recorder, the return of a snapshot request, and time. A widget that is disabled takes
  no action of the user, and a signal for a value that does not change is not sent. The
  constructor connects \<^verbatim>\<open>onApplicationNameChanged\<close> to the text of the application field
  twice (lines 195 and 197, a workaround); an edit runs the slot once here.
\<close>

definition selectRecordType :: "Env \<Rightarrow> RecordType \<Rightarrow> RecordPage \<Rightarrow> RecordPage" where
  "selectRecordType env rt s =
     (if recordTypeEnabled s \<and> recordType s \<noteq> rt
      then onRecordTypeChanged env rt (s\<lparr>recordType := rt\<rparr>)
      else s)"

definition editApplicationName :: "Env \<Rightarrow> string \<Rightarrow> RecordPage \<Rightarrow> RecordPage" where
  "editApplicationName env t s =
     (if editText (applicationName s) = t then s
      else onApplicationNameChanged env t (s\<lparr>applicationName := (applicationName s)\<lparr>editText := t\<rparr>\<rparr>))"

definition clickStart :: "Env \<Rightarrow> RecordPage \<Rightarrow> RecordPage" where
  "clickStart env s = (if startEnabled s then setStartChecked env (\<not> startChecked s) s else s)"

text \<open>
  Request \<open>i\<close> returns with its result. The watcher reports it, and
  \<^verbatim>\<open>updateProcessesFinished\<close> runs, only when the future of that request is the one the watcher
  holds.
\<close>

definition snapshotReturned :: "Env \<Rightarrow> nat \<Rightarrow> ProcessRecord list \<Rightarrow> RecordPage \<Rightarrow> RecordPage" where
  "snapshotReturned env i result s =
     (if i \<in> set (running s) then
        (let s1 = s\<lparr>running := removeAll i (running s)\<rparr>
         in if watched s1 = Some i then updateProcessesFinished env result s1 else s1)
      else s)"

definition timePasses :: "nat \<Rightarrow> RecordPage \<Rightarrow> RecordPage" where
  "timePasses d s = s\<lparr>clock := clock s + d\<rparr>"

text \<open>The oldest single-shot timer fires once it is due, and calls \<^verbatim>\<open>updateProcesses\<close>.\<close>

definition timerDue :: "RecordPage \<Rightarrow> RecordPage" where
  "timerDue s =
     (case timers s of
        [] \<Rightarrow> s
      | t # ts \<Rightarrow> if t \<le> clock s then updateProcesses (s\<lparr>timers := ts\<rparr>) else s)"

datatype Event =
  SelectRecordType RecordType
  | EditApplicationName string
  | EditParameters string
  | EditWorkingDirectory string
  | EditOutputFile string
  | ReturnPressedInOutputFile
  | OutputUrlSelected QUrl
  | EditEventType string
  | ChooseCallGraph string
  | ChangeSelection "ModelIndex list"
  | ClickStart
  | RecordingFinished string
  | RecordingFailed string
  | RecordingOutput string
  | SnapshotReturned nat "ProcessRecord list"
  | TimePasses nat
  | TimerDue

fun step :: "Env \<Rightarrow> Event \<Rightarrow> RecordPage \<Rightarrow> RecordPage" where
  "step env (SelectRecordType rt) s = selectRecordType env rt s"
| "step env (EditApplicationName t) s = editApplicationName env t s"
| "step env (EditParameters t) s = s\<lparr>applicationParametersBox := t\<rparr>"
| "step env (EditWorkingDirectory t) s = setWorkingDirectoryText env t s"
| "step env (EditOutputFile t) s = setOutputFileText env t s"
| "step env ReturnPressedInOutputFile s = onOutputFileNameSelected env (outputFile s) s"
| "step env (OutputUrlSelected u) s =
     onOutputFileUrlChanged env u (setOutputFileText env (toLocalFile env u) s)"
| "step env (EditEventType t) s = s\<lparr>eventTypeBox := (eventTypeBox s)\<lparr>editText := t\<rparr>\<rparr>"
| "step env (ChooseCallGraph d) s = s\<lparr>callGraphData := d\<rparr>"
| "step env (ChangeSelection sel) s = onSelectionChanged env sel s"
| "step env ClickStart s = clickStart env s"
| "step env (RecordingFinished f) s = recordingFinished env f s"
| "step env (RecordingFailed m) s = recordingFailed env m s"
| "step env (RecordingOutput m) s = recordingOutput m s"
| "step env (SnapshotReturned i result) s = snapshotReturned env i result s"
| "step env (TimePasses d) s = timePasses d s"
| "step env TimerDue s = timerDue s"

fun run :: "Env \<Rightarrow> Event list \<Rightarrow> RecordPage \<Rightarrow> RecordPage" where
  "run env [] s = s"
| "run env (e # es) s = run env es (step env e s)"

text \<open>How often a list of events asks for the attach mode.\<close>

fun attachRequests :: "Event list \<Rightarrow> nat" where
  "attachRequests [] = 0"
| "attachRequests (e # es) =
     (if e = SelectRecordType AttachToProcess then 1 else 0) + attachRequests es"

text \<open>
  The requests that have not returned and the timers that will make one: what the polling loop
  still has to run.
\<close>

definition pending :: "RecordPage \<Rightarrow> nat" where
  "pending s = length (running s) + length (timers s)"

text \<open>
  A list of events in which the user changes to the attach mode only while the polling loop has
  nothing left to run.
\<close>

fun switchesWhenIdle :: "Env \<Rightarrow> Event list \<Rightarrow> RecordPage \<Rightarrow> bool" where
  "switchesWhenIdle env [] s = True"
| "switchesWhenIdle env (e # es) s =
     ((e = SelectRecordType AttachToProcess \<and> recordTypeEnabled s \<and> recordType s \<noteq> AttachToProcess
         \<longrightarrow> running s = [] \<and> timers s = [])
      \<and> switchesWhenIdle env es (step env e s))"

text \<open>The option list of a call on the recorder.\<close>

fun perfOptionsOf :: "PerfCall \<Rightarrow> string list" where
  "perfOptionsOf (RecordLaunch opts out exe args wd) = opts"
| "perfOptionsOf (RecordAttach opts out pids) = opts"
| "perfOptionsOf StopRecording = []"

text \<open>\<open>a\<close> directly followed by \<open>b\<close> in a list.\<close>

definition followedBy :: "'a \<Rightarrow> 'a \<Rightarrow> 'a list \<Rightarrow> bool" where
  "followedBy a b xs = ((a, b) \<in> set (zip xs (tl xs)))"

subsection \<open>An example machine\<close>

text \<open>
  A small file system for the examples: two executables in \<^verbatim>\<open>/bin\<close> and a writable
  \<^verbatim>\<open>/tmp\<close>; paths are absolute, a URL is its path, the shell expands nothing and splits at
  nothing.
\<close>

definition dirName :: "string \<Rightarrow> string" where
  "dirName p = rev (drop 1 (dropWhile (\<lambda>c. c \<noteq> CHR ''/'') (rev p)))"

definition exampleEnv :: Env where
  "exampleEnv =
     \<lparr>tildeExpand = (\<lambda>p. p),
      splitArgs = (\<lambda>a. if a = [] then [] else [a]),
      findExecutable = (\<lambda>p. if p = ''/bin/ls'' \<or> p = ''/bin/true'' then p else []),
      requesterUrl = (\<lambda>t. t),
      urlIsValid = (\<lambda>u. u \<noteq> []),
      toLocalFile = (\<lambda>u. u),
      fileExists = (\<lambda>p. p = ''/bin/ls'' \<or> p = ''/bin/true'' \<or> p = ''/bin'' \<or> p = ''/tmp''),
      fileIsFile = (\<lambda>p. p = ''/bin/ls'' \<or> p = ''/bin/true''),
      fileIsDir = (\<lambda>p. p = ''/bin'' \<or> p = ''/tmp''),
      fileIsExecutable = (\<lambda>p. p = ''/bin/ls'' \<or> p = ''/bin/true''),
      fileIsWritable = (\<lambda>p. p = ''/tmp''),
      fileInfoPath = dirName,
      fileAbsolutePath = dirName,
      fileAbsoluteFilePath = (\<lambda>p. p)\<rparr>"

text \<open>
  A page that has just been constructed, with an empty configuration store and the program
  started in \<^verbatim>\<open>/tmp\<close>: the launch page is shown, the text fields are empty but for the
  output file, DWARF unwinding is chosen, nothing is selected, no request was made.
\<close>

definition examplePage :: RecordPage where
  "examplePage =
     \<lparr>currentWidget = launchAppPage,
      recordType = LaunchApplication,
      recordTypeEnabled = True,
      applicationName = \<lparr>comboItems = [], currentIndex = -1, editText = []\<rparr>,
      applicationParametersBox = [],
      workingDirectory = [],
      workingDirectoryPlaceholder = [],
      outputFile = ''/tmp/perf.data'',
      eventTypeBox = \<lparr>comboItems = [[]], currentIndex = 0, editText = []\<rparr>,
      callGraphData = ''dwarf'',
      errorMessageText = [],
      errorMessageVisible = False,
      startEnabled = False,
      startChecked = False,
      startText = ''Start Recording'',
      startIcon = ''media-playback-start'',
      viewResultsEnabled = False,
      perfResultsText = [],
      perfResultsVisible = False,
      perfResultsLabelVisible = False,
      windowTitle = ''Hotspot - Record'',
      m_resultsFile = [],
      processes = [],
      selectedIndexes = [],
      config = Map.empty,
      perfRecord = [],
      clock = 0,
      timers = [],
      running = [],
      watched = None,
      nextRequest = 0\<rparr>"

text \<open>A process of the examples, and the selected index of column 0 of its row.\<close>

definition exampleProcess :: ProcessRecord where
  "exampleProcess = \<lparr>processId = 42, procName = ''make'', procState = Running\<rparr>"

definition exampleIndex :: ModelIndex where
  "exampleIndex = \<lparr>indexProcessId = 42, indexColumn = 0, pidRoleData = ''42''\<rparr>"

section \<open>Properties\<close>

subsection \<open>Unfolding the slots on the example machine\<close>

lemmas slot_defs =
  editApplicationName_def onApplicationNameChanged_def setWorkingDirectoryText_def
  onWorkingDirectoryNameChanged_def setOutputFileText_def onOutputFileNameChanged_def
  onOutputFileNameSelected_def updateStartRecordingButtonState_def clickStart_def
  setStartChecked_def onStartRecordingButtonClicked_def showRecordPage_def
  rememberApplication_def rememberCombobox_def readEntry_def writeEntry_def
  applicationConfig_def configGroup_def insertItem_def removeItem_def itemText_def
  MAX_COMBO_ENTRIES_def endsWith_def perfDataExtension_def dirName_def
  selectRecordType_def onRecordTypeChanged_def updateProcesses_def snapshotReturned_def
  updateProcessesFinished_def mergeIntoProcessModel_def onSelectionChanged_def
  mergeProcesses_def updateRow_def lookupProcess_def recordingFailed_def
  timePasses_def timerDue_def Let_def

lemmas example_defs = examplePage_def exampleEnv_def exampleProcess_def exampleIndex_def

subsection \<open>What the slots leave alone\<close>

lemma updateStartRecordingButtonState_eq:
  "updateStartRecordingButtonState env s =
     s\<lparr>startEnabled :=
          ((if currentWidget s = launchAppPage
            then urlIsValid env (requesterUrl env (editText (applicationName s)))
            else selectedIndexes s \<noteq> []) \<and> errorMessageText s = [])\<rparr>"
  by (simp add: updateStartRecordingButtonState_def Let_def)

lemma frame_updateStart:
  "running (updateStartRecordingButtonState env s) = running s"
  "timers (updateStartRecordingButtonState env s) = timers s"
  "perfRecord (updateStartRecordingButtonState env s) = perfRecord s"
  "outputFile (updateStartRecordingButtonState env s) = outputFile s"
  by (simp_all add: updateStartRecordingButtonState_eq)

lemma frame_onWorkingDirectoryNameChanged:
  "running (onWorkingDirectoryNameChanged env p s) = running s"
  "timers (onWorkingDirectoryNameChanged env p s) = timers s"
  "perfRecord (onWorkingDirectoryNameChanged env p s) = perfRecord s"
  "outputFile (onWorkingDirectoryNameChanged env p s) = outputFile s"
  by (simp_all add: onWorkingDirectoryNameChanged_def Let_def frame_updateStart)

lemma frame_setWorkingDirectoryText:
  "running (setWorkingDirectoryText env p s) = running s"
  "timers (setWorkingDirectoryText env p s) = timers s"
  "perfRecord (setWorkingDirectoryText env p s) = perfRecord s"
  "outputFile (setWorkingDirectoryText env p s) = outputFile s"
  by (simp_all add: setWorkingDirectoryText_def frame_onWorkingDirectoryNameChanged)

lemma frame_onApplicationNameChanged:
  "running (onApplicationNameChanged env p s) = running s"
  "timers (onApplicationNameChanged env p s) = timers s"
  "perfRecord (onApplicationNameChanged env p s) = perfRecord s"
  "outputFile (onApplicationNameChanged env p s) = outputFile s"
  by (simp_all add: onApplicationNameChanged_def Let_def frame_updateStart
      frame_setWorkingDirectoryText)

lemma frame_editApplicationName:
  "running (editApplicationName env p s) = running s"
  "timers (editApplicationName env p s) = timers s"
  by (simp_all add: editApplicationName_def frame_onApplicationNameChanged)

lemma frame_onOutputFileNameChanged:
  "running (onOutputFileNameChanged env p s) = running s"
  "timers (onOutputFileNameChanged env p s) = timers s"
  "outputFile (onOutputFileNameChanged env p s) = outputFile s"
  by (simp_all add: onOutputFileNameChanged_def Let_def frame_updateStart)

lemma frame_setOutputFileText:
  "running (setOutputFileText env p s) = running s"
  "timers (setOutputFileText env p s) = timers s"
  by (simp_all add: setOutputFileText_def frame_onOutputFileNameChanged)

lemma frame_onOutputFileNameSelected:
  "running (onOutputFileNameSelected env p s) = running s"
  "timers (onOutputFileNameSelected env p s) = timers s"
  by (simp_all add: onOutputFileNameSelected_def frame_setOutputFileText)

lemma frame_rememberApplication:
  "running (rememberApplication env a b c s) = running s"
  "timers (rememberApplication env a b c s) = timers s"
  "perfRecord (rememberApplication env a b c s) = perfRecord s"
  "outputFile (rememberApplication env a b c s) = outputFile s"
  by (simp_all add: rememberApplication_def Let_def case_prod_beta
      frame_onApplicationNameChanged)

lemma frame_onStartRecordingButtonClicked:
  "running (onStartRecordingButtonClicked env c s) = running s"
  "timers (onStartRecordingButtonClicked env c s) = timers s"
  by (simp_all add: onStartRecordingButtonClicked_def Let_def case_prod_beta showRecordPage_def
      frame_rememberApplication)

lemma frame_setStartChecked:
  "running (setStartChecked env c s) = running s"
  "timers (setStartChecked env c s) = timers s"
  by (simp_all add: setStartChecked_def frame_onStartRecordingButtonClicked)

text \<open>
  A merge changes the process table and, through the slot of the selection, the selection and
  the start button; it leaves the page shown, the requests, the timers and the clock alone.
\<close>

lemma frame_mergeIntoProcessModel:
  "processes (mergeIntoProcessModel env result s) = mergeProcesses (processes s) result"
  "currentWidget (mergeIntoProcessModel env result s) = currentWidget s"
  "running (mergeIntoProcessModel env result s) = running s"
  "timers (mergeIntoProcessModel env result s) = timers s"
  "clock (mergeIntoProcessModel env result s) = clock s"
  "nextRequest (mergeIntoProcessModel env result s) = nextRequest s"
  by (simp_all add: mergeIntoProcessModel_def Let_def onSelectionChanged_def
      updateStartRecordingButtonState_eq)

lemma setStartChecked_False:
  "setStartChecked env False s =
     (if startChecked s then
        s\<lparr>startChecked := False, startIcon := ''media-playback-start'',
          startText := ''Start Recording'',
          perfRecord := perfRecord s @ [StopRecording],
          recordTypeEnabled := True\<rparr>
      else s)"
  by (simp add: setStartChecked_def onStartRecordingButtonClicked_def)

lemma startEnabled_setStartChecked_False:
  "startEnabled (setStartChecked env False s) = startEnabled s"
  by (simp add: setStartChecked_False)

subsection \<open>The start button and the error message\<close>

lemma gate_updateStart:
  "startEnabled (updateStartRecordingButtonState env s) \<Longrightarrow>
     errorMessageText (updateStartRecordingButtonState env s) = []"
  by (simp add: updateStartRecordingButtonState_eq)

lemma gate_onWorkingDirectoryNameChanged:
  "startEnabled (onWorkingDirectoryNameChanged env p s) \<Longrightarrow>
     errorMessageText (onWorkingDirectoryNameChanged env p s) = []"
  unfolding onWorkingDirectoryNameChanged_def Let_def by (rule gate_updateStart)

lemma gate_onOutputFileNameChanged:
  "startEnabled (onOutputFileNameChanged env p s) \<Longrightarrow>
     errorMessageText (onOutputFileNameChanged env p s) = []"
  unfolding onOutputFileNameChanged_def Let_def by (rule gate_updateStart)

lemma gate_onApplicationNameChanged:
  "startEnabled (onApplicationNameChanged env p s) \<Longrightarrow>
     errorMessageText (onApplicationNameChanged env p s) = []"
  unfolding onApplicationNameChanged_def Let_def by (rule gate_updateStart)

lemma gate_setWorkingDirectoryText:
  "startEnabled (setWorkingDirectoryText env p s) \<Longrightarrow>
     startEnabled s \<or> errorMessageText (setWorkingDirectoryText env p s) = []"
  by (auto simp: setWorkingDirectoryText_def dest: gate_onWorkingDirectoryNameChanged
      split: if_splits)

lemma gate_setOutputFileText:
  "setOutputFileText env p s = s
   \<or> (startEnabled (setOutputFileText env p s) \<longrightarrow>
        errorMessageText (setOutputFileText env p s) = [])"
  by (auto simp: setOutputFileText_def dest: gate_onOutputFileNameChanged)

lemma gate_onOutputFileNameSelected:
  "onOutputFileNameSelected env p s = s
   \<or> (startEnabled (onOutputFileNameSelected env p s) \<longrightarrow>
        errorMessageText (onOutputFileNameSelected env p s) = [])"
  using gate_setOutputFileText[of env "p @ perfDataExtension" s]
  by (auto simp: onOutputFileNameSelected_def)

lemma gate_mergeIntoProcessModel:
  "startEnabled (mergeIntoProcessModel env result s) \<Longrightarrow>
     startEnabled s \<or> errorMessageText (mergeIntoProcessModel env result s) = []"
  by (auto simp: mergeIntoProcessModel_def Let_def onSelectionChanged_def
      dest: gate_updateStart split: if_splits)

lemma gate_updateProcessesFinished:
  "startEnabled (updateProcessesFinished env result s) \<Longrightarrow>
     startEnabled s \<or> errorMessageText (updateProcessesFinished env result s) = []"
proof (cases "currentWidget (mergeIntoProcessModel env result s) = attachAppPage")
  case True
  assume "startEnabled (updateProcessesFinished env result s)"
  with True show ?thesis
    by (simp add: updateProcessesFinished_def Let_def updateStartRecordingButtonState_eq)
next
  case False
  assume "startEnabled (updateProcessesFinished env result s)"
  with False show ?thesis
    using gate_mergeIntoProcessModel[of env result s]
    by (simp add: updateProcessesFinished_def Let_def)
qed

text \<open>
  No event enables the start button while the error message is not empty: a button that was
  disabled is enabled only in a state whose message is empty.
\<close>

lemma start_enabled_needs_empty_message:
  assumes "startEnabled (step env e s)"
  shows "startEnabled s \<or> errorMessageText (step env e s) = []"
proof (cases e)
  case (SelectRecordType rt)
  with assms show ?thesis
    by (auto simp: selectRecordType_def onRecordTypeChanged_def Let_def dest: gate_updateStart
        split: if_splits)
next
  case (EditApplicationName t)
  with assms show ?thesis
    by (auto simp: editApplicationName_def dest: gate_onApplicationNameChanged split: if_splits)
next
  case (EditWorkingDirectory t)
  with assms show ?thesis by (auto dest: gate_setWorkingDirectoryText)
next
  case (EditOutputFile t)
  with assms show ?thesis using gate_setOutputFileText[of env t s] by auto
next
  case ReturnPressedInOutputFile
  with assms show ?thesis using gate_onOutputFileNameSelected[of env "outputFile s" s] by auto
next
  case (OutputUrlSelected u)
  let ?s1 = "setOutputFileText env (toLocalFile env u) s"
  have e: "step env e s = onOutputFileNameSelected env (toLocalFile env u) ?s1"
    using OutputUrlSelected by (simp add: onOutputFileUrlChanged_def)
  from gate_onOutputFileNameSelected[of env "toLocalFile env u" ?s1]
    gate_setOutputFileText[of env "toLocalFile env u" s] assms
  show ?thesis unfolding e by auto
next
  case (ChangeSelection sel)
  with assms show ?thesis by (auto simp: onSelectionChanged_def dest: gate_updateStart)
next
  case ClickStart
  show ?thesis
  proof (cases "startEnabled s")
    case True
    then show ?thesis by simp
  next
    case False
    with ClickStart assms show ?thesis by (simp add: clickStart_def)
  qed
next
  case (RecordingFinished f)
  with assms show ?thesis
    by (simp add: recordingFinished_def Let_def startEnabled_setStartChecked_False)
next
  case (RecordingFailed m)
  with assms show ?thesis
    by (simp add: recordingFailed_def Let_def startEnabled_setStartChecked_False)
next
  case (SnapshotReturned i result)
  show ?thesis
  proof (cases "i \<in> set (running s) \<and> watched s = Some i")
    case True
    with SnapshotReturned assms
    have "startEnabled (updateProcessesFinished env result (s\<lparr>running := removeAll i (running s)\<rparr>))"
      by (simp add: snapshotReturned_def Let_def)
    from gate_updateProcessesFinished[OF this] True SnapshotReturned show ?thesis
      by (simp add: snapshotReturned_def Let_def)
  next
    case False
    with SnapshotReturned assms show ?thesis
      by (auto simp: snapshotReturned_def Let_def split: if_splits)
  qed
next
  case TimerDue
  with assms show ?thesis
    by (auto simp: timerDue_def updateProcesses_def split: list.splits if_splits)
qed (use assms in \<open>simp_all add: recordingOutput_def timePasses_def\<close>)

text \<open>Every failed check of a validating slot leaves a message that is not empty.\<close>

lemma validation_failure_leaves_message:
  "\<not> fileExists env (findExecutable env (tildeExpand env filePath))
     \<or> \<not> fileIsFile env (findExecutable env (tildeExpand env filePath))
     \<or> \<not> fileIsExecutable env (findExecutable env (tildeExpand env filePath))
   \<Longrightarrow> errorMessageText (onApplicationNameChanged env filePath s) \<noteq> []"
  "\<not> fileExists env (toLocalFile env (requesterUrl env (workingDirectory s)))
     \<or> \<not> fileIsDir env (toLocalFile env (requesterUrl env (workingDirectory s)))
     \<or> \<not> fileIsWritable env (toLocalFile env (requesterUrl env (workingDirectory s)))
   \<Longrightarrow> errorMessageText (onWorkingDirectoryNameChanged env folderPath s) \<noteq> []"
  "\<not> fileExists env (fileAbsolutePath env (toLocalFile env (requesterUrl env (outputFile s))))
     \<or> \<not> fileIsDir env (fileAbsolutePath env (toLocalFile env (requesterUrl env (outputFile s))))
     \<or> \<not> fileIsWritable env (fileAbsolutePath env (toLocalFile env (requesterUrl env (outputFile s))))
     \<or> \<not> endsWith (fileAbsoluteFilePath env (toLocalFile env (requesterUrl env (outputFile s))))
           ''.data''
   \<Longrightarrow> errorMessageText (onOutputFileNameChanged env fileName s) \<noteq> []"
  by (auto simp: onApplicationNameChanged_def onWorkingDirectoryNameChanged_def
      onOutputFileNameChanged_def Let_def updateStartRecordingButtonState_eq perfDataExtension_def)

text \<open>
  Right after a validating slot has left a message that is not empty, the start button is
  disabled and a click on it changes nothing.
\<close>

lemma validating_slot_disables_start:
  "(errorMessageText (onApplicationNameChanged env filePath s) \<noteq> [] \<longrightarrow>
      \<not> startEnabled (onApplicationNameChanged env filePath s)
      \<and> clickStart env (onApplicationNameChanged env filePath s)
          = onApplicationNameChanged env filePath s)
   \<and> (errorMessageText (onWorkingDirectoryNameChanged env folderPath s) \<noteq> [] \<longrightarrow>
      \<not> startEnabled (onWorkingDirectoryNameChanged env folderPath s)
      \<and> clickStart env (onWorkingDirectoryNameChanged env folderPath s)
          = onWorkingDirectoryNameChanged env folderPath s)
   \<and> (errorMessageText (onOutputFileNameChanged env fileName s) \<noteq> [] \<longrightarrow>
      \<not> startEnabled (onOutputFileNameChanged env fileName s)
      \<and> clickStart env (onOutputFileNameChanged env fileName s)
          = onOutputFileNameChanged env fileName s)"
  using gate_onApplicationNameChanged[of env filePath s]
    gate_onWorkingDirectoryNameChanged[of env folderPath s]
    gate_onOutputFileNameChanged[of env fileName s]
  by (auto simp: clickStart_def)

text \<open>
  C5. The claim: when a validation error has left the error message non-empty, the start
  button is disabled, so that no session can be started until the input is corrected. The
  validating slots of the three fields write to one message label, and each of them clears
  the label when its own field is good. On the example machine the application \<^verbatim>\<open>/opt/app\<close>
  is rejected (no such file), the message is set and the start button disabled; the user then
  edits the output file to a good path, which clears the message and enables the start
  button, and a click starts a recording of \<^verbatim>\<open>/opt/app\<close>, which was never corrected.
\<close>

theorem rejected_application_can_be_started:
  "errorMessageText (run exampleEnv [EditApplicationName ''/opt/app''] examplePage)
     = ''Application file cannot be found: /opt/app''
   \<and> \<not> startEnabled (run exampleEnv [EditApplicationName ''/opt/app''] examplePage)
   \<and> \<not> fileExists exampleEnv (findExecutable exampleEnv (tildeExpand exampleEnv ''/opt/app''))
   \<and> errorMessageText
       (run exampleEnv [EditApplicationName ''/opt/app'', EditOutputFile ''/tmp/out.data'']
          examplePage) = []
   \<and> startEnabled
       (run exampleEnv [EditApplicationName ''/opt/app'', EditOutputFile ''/tmp/out.data'']
          examplePage)
   \<and> perfRecord
       (run exampleEnv
          [EditApplicationName ''/opt/app'', EditOutputFile ''/tmp/out.data'', ClickStart]
          examplePage)
     = [RecordLaunch [''--call-graph'', ''dwarf''] ''/tmp/out.data'' ''/opt/app'' [] []]"
  by (simp add: slot_defs example_defs)

subsection \<open>The CPU probe\<close>

lemma isIntel_nonempty: "list \<noteq> [] \<Longrightarrow> \<exists>b. isIntel list = Inr b"
  by (cases list) (auto simp: isIntel_def listAt_def Let_def)

text \<open>
  C10. The claim: \<^verbatim>\<open>isIntel\<close> returns a boolean for every device list, the empty one
  included, and reads the first element only when the list is not empty. The code reads
  \<^verbatim>\<open>list[0]\<close> before it tests \<^verbatim>\<open>list.empty()\<close>: on the empty list the read is out of
  range and no boolean is returned.
\<close>

theorem isIntel_empty_list_out_of_range: "isIntel [] = Inl IndexOutOfRange"
  by (simp add: isIntel_def listAt_def)


subsection \<open>The output file\<close>

lemma outputFile_updateStart: "outputFile (updateStartRecordingButtonState env s) = outputFile s"
  by (simp add: updateStartRecordingButtonState_eq)

lemma outputFile_onOutputFileNameChanged:
  "outputFile (onOutputFileNameChanged env u s) = outputFile s"
  by (simp add: onOutputFileNameChanged_def Let_def outputFile_updateStart)

lemma outputFile_setOutputFileText: "outputFile (setOutputFileText env t s) = t"
  by (simp add: setOutputFileText_def outputFile_onOutputFileNameChanged)

text \<open>
  C7. When the output file is committed with a path that does not end with \<^verbatim>\<open>.data\<close>, the
  output file field becomes that path with \<^verbatim>\<open>.data\<close> appended; with a path that ends with
  \<^verbatim>\<open>.data\<close> the field is left as it is. Selecting a URL commits the local file of the URL.
\<close>

theorem onOutputFileNameSelected_appends_extension:
  "(\<not> endsWith filePath ''.data'' \<longrightarrow>
      outputFile (onOutputFileNameSelected env filePath s) = filePath @ ''.data'')
   \<and> (endsWith filePath ''.data'' \<longrightarrow>
      outputFile (onOutputFileNameSelected env filePath s) = outputFile s)
   \<and> outputFile (onOutputFileUrlChanged env fileUrl s)
       = outputFile (onOutputFileNameSelected env (toLocalFile env fileUrl) s)"
  by (simp add: onOutputFileNameSelected_def onOutputFileUrlChanged_def perfDataExtension_def
      outputFile_setOutputFileText)

theorem onOutputFileNameSelected_appends_extension_witness:
  "\<not> endsWith ''/tmp/out'' ''.data''
   \<and> outputFile (onOutputFileNameSelected exampleEnv ''/tmp/out'' examplePage) = ''/tmp/out.data''
   \<and> endsWith ''/home/me/perf.data'' ''.data''
   \<and> outputFile (onOutputFileNameSelected exampleEnv ''/home/me/perf.data'' examplePage)
       = ''/tmp/perf.data''"
proof -
  have n: "\<not> endsWith ''/tmp/out'' ''.data''" by (simp add: endsWith_def)
  have y: "endsWith ''/home/me/perf.data'' ''.data''" by (simp add: endsWith_def)
  have o: "outputFile examplePage = ''/tmp/perf.data''" by (simp add: examplePage_def)
  show ?thesis
    using n y o
      onOutputFileNameSelected_appends_extension[of "''/tmp/out''" exampleEnv examplePage]
      onOutputFileNameSelected_appends_extension[of "''/home/me/perf.data''" exampleEnv examplePage]
    by simp
qed

subsection \<open>The history of a combo box\<close>

lemma findText_ge: "- 1 \<le> findText xs v"
  by (induction xs) (auto simp: Let_def)

lemma findText_neg: "findText xs v = - 1 \<longleftrightarrow> v \<notin> set xs"
proof (induction xs)
  case Nil
  then show ?case by simp
next
  case (Cons x xs)
  have "- 1 \<le> findText xs v" by (rule findText_ge)
  with Cons show ?case by (auto simp: Let_def)
qed

lemma findText_bound: "v \<in> set xs \<Longrightarrow> 0 \<le> findText xs v \<and> nat (findText xs v) < length xs"
proof (induction xs)
  case Nil
  then show ?case by simp
next
  case (Cons x xs)
  show ?case
  proof (cases "x = v")
    case True
    then show ?thesis by simp
  next
    case False
    with Cons.prems have "v \<in> set xs" by simp
    from Cons.IH[OF this] have b: "0 \<le> findText xs v" "nat (findText xs v) < length xs" by auto
    then have "findText xs v \<noteq> - 1" by linarith
    with False b show ?thesis by (simp add: Let_def nat_add_distrib)
  qed
qed

text \<open>Removing the item that \<^verbatim>\<open>findText\<close> found removes the first occurrence of the text.\<close>

lemma removeItem_findText: "v \<in> set xs \<Longrightarrow> removeItem (findText xs v) xs = remove1 v xs"
proof (induction xs)
  case Nil
  then show ?case by simp
next
  case (Cons x xs)
  show ?case
  proof (cases "x = v")
    case True
    then show ?thesis by (simp add: removeItem_def)
  next
    case False
    with Cons.prems have mem: "v \<in> set xs" by simp
    from findText_bound[OF mem] have b: "0 \<le> findText xs v" "nat (findText xs v) < length xs"
      by auto
    then have ne: "findText xs v \<noteq> - 1" by linarith
    from Cons.IH[OF mem] b
    have ih: "take (nat (findText xs v)) xs @ drop (Suc (nat (findText xs v))) xs = remove1 v xs"
      by (simp add: removeItem_def)
    have n: "nat (findText xs v + 1) = Suc (nat (findText xs v))"
      using b by linarith
    have "removeItem (findText (x # xs) v) (x # xs)
            = x # (take (nat (findText xs v)) xs @ drop (Suc (nat (findText xs v))) xs)"
      using False ne b n by (simp add: removeItem_def Let_def)
    with ih False show ?thesis by simp
  qed
qed

lemma map_itemText_take: "map (itemText xs) [0..<min n (length xs)] = take n xs"
  by (rule nth_equalityI) (auto simp: itemText_def)

lemma rememberCombobox_items:
  "comboItems (fst (rememberCombobox cfg grp k v combo)) = v # remove1 v (comboItems combo)"
proof (cases "v \<in> set (comboItems combo)")
  case True
  then have "findText (comboItems combo) v \<noteq> - 1" by (simp add: findText_neg)
  with True show ?thesis
    by (simp add: rememberCombobox_def Let_def insertItem_def removeItem_findText)
next
  case False
  then have "findText (comboItems combo) v = - 1" by (simp add: findText_neg)
  with False show ?thesis
    by (simp add: rememberCombobox_def Let_def insertItem_def remove1_idem)
qed

lemma rememberCombobox_written:
  "snd (rememberCombobox cfg grp k v combo) (grp, k)
     = Some (ConfigList (take 10 (comboItems (fst (rememberCombobox cfg grp k v combo)))))"
proof -
  let ?items = "insertItem 0 v
     (if findText (comboItems combo) v \<noteq> - 1
      then removeItem (findText (comboItems combo) v) (comboItems combo)
      else comboItems combo)"
  have "map (itemText ?items) [0..<min 10 (length ?items)] = take 10 ?items"
    by (rule map_itemText_take)
  then show ?thesis
    by (simp add: rememberCombobox_def Let_def writeEntry_def MAX_COMBO_ENTRIES_def)
qed

text \<open>
  A history without duplicates stays without duplicates, also when it is written to the
  configuration store and read back from it.
\<close>

lemma rememberCombobox_keeps_distinct:
  assumes "distinct (comboItems combo)"
  shows "distinct (comboItems (fst (rememberCombobox cfg grp k v combo)))"
    and "distinct (comboItems
           (restoreCombobox (snd (rememberCombobox cfg grp k v combo)) grp k dflts))"
proof -
  have "v \<notin> set (remove1 v (comboItems combo))"
    using assms by simp
  then show d: "distinct (comboItems (fst (rememberCombobox cfg grp k v combo)))"
    using assms by (simp add: rememberCombobox_items distinct_remove1)
  have "readListEntry (snd (rememberCombobox cfg grp k v combo)) grp k dflts
          = take 10 (comboItems (fst (rememberCombobox cfg grp k v combo)))"
    by (simp add: readListEntry_def rememberCombobox_written)
  then show "distinct (comboItems
           (restoreCombobox (snd (rememberCombobox cfg grp k v combo)) grp k dflts))"
    using d by (simp add: restoreCombobox_def Let_def)
qed

text \<open>
  C8, as claimed: after \<^verbatim>\<open>rememberCombobox\<close> every earlier occurrence of the value is gone and
  the history has no duplicates. \<^verbatim>\<open>findText\<close> finds the first occurrence and only that one is
  removed: a history that holds the value twice (\<^verbatim>\<open>restoreCombobox\<close> loads whatever list the
  store holds) still holds it twice afterwards, at the front and once more.
\<close>

theorem rememberCombobox_keeps_second_occurrence:
  "comboItems (fst (rememberCombobox Map.empty configGroup ''eventType'' ''cycles''
      \<lparr>comboItems = [''cycles'', ''instructions'', ''cycles''], currentIndex = 0,
       editText = ''cycles''\<rparr>))
     = [''cycles'', ''instructions'', ''cycles'']
   \<and> \<not> distinct (comboItems (fst (rememberCombobox Map.empty configGroup ''eventType'' ''cycles''
      \<lparr>comboItems = [''cycles'', ''instructions'', ''cycles''], currentIndex = 0,
       editText = ''cycles''\<rparr>)))
   \<and> snd (rememberCombobox Map.empty configGroup ''eventType'' ''cycles''
      \<lparr>comboItems = [''cycles'', ''instructions'', ''cycles''], currentIndex = 0,
       editText = ''cycles''\<rparr>) (configGroup, ''eventType'')
     = Some (ConfigList [''cycles'', ''instructions'', ''cycles''])"
  by (simp add: rememberCombobox_def Let_def insertItem_def removeItem_def itemText_def
      writeEntry_def MAX_COMBO_ENTRIES_def configGroup_def)

text \<open>
  C8, amended: after \<^verbatim>\<open>rememberCombobox\<close> the value is at the front of the history and
  current, its first earlier occurrence is removed and the other entries keep their order,
  and the list written to the configuration store is the first 10 entries of the history, at
  most 10 entries, the most recent first; a history that had no duplicates has none
  afterwards, and the value occurs in it only at the front.
\<close>

theorem rememberCombobox_front_unique_capped:
  "comboItems (fst (rememberCombobox cfg grp entryName v combo))
     = v # remove1 v (comboItems combo)
   \<and> hd (comboItems (fst (rememberCombobox cfg grp entryName v combo))) = v
   \<and> currentIndex (fst (rememberCombobox cfg grp entryName v combo)) = 0
   \<and> snd (rememberCombobox cfg grp entryName v combo) (grp, entryName)
       = Some (ConfigList (take 10 (v # remove1 v (comboItems combo))))
   \<and> length (take 10 (v # remove1 v (comboItems combo))) \<le> 10
   \<and> (distinct (comboItems combo) \<longrightarrow>
        v \<notin> set (tl (comboItems (fst (rememberCombobox cfg grp entryName v combo))))
        \<and> distinct (comboItems (fst (rememberCombobox cfg grp entryName v combo))))"
proof -
  have idx: "currentIndex (fst (rememberCombobox cfg grp entryName v combo)) = 0"
    by (simp add: rememberCombobox_def Let_def)
  have out: "v \<notin> set (remove1 v (comboItems combo))" if "distinct (comboItems combo)"
    using that by simp
  show ?thesis
    using idx out rememberCombobox_written[of cfg grp entryName v combo]
    by (simp add: rememberCombobox_items distinct_remove1)
qed

theorem rememberCombobox_front_unique_capped_witness:
  "distinct (comboItems \<lparr>comboItems = [''cycles'', ''instructions'', ''cache-misses''],
                         currentIndex = 0, editText = ''instructions''\<rparr>)
   \<and> comboItems (fst (rememberCombobox Map.empty configGroup ''eventType'' ''instructions''
        \<lparr>comboItems = [''cycles'', ''instructions'', ''cache-misses''],
         currentIndex = 0, editText = ''instructions''\<rparr>))
       = [''instructions'', ''cycles'', ''cache-misses'']
   \<and> snd (rememberCombobox Map.empty configGroup ''eventType'' ''instructions''
        \<lparr>comboItems = [''cycles'', ''instructions'', ''cache-misses''],
         currentIndex = 0, editText = ''instructions''\<rparr>) (configGroup, ''eventType'')
       = Some (ConfigList [''instructions'', ''cycles'', ''cache-misses''])"
proof -
  have d: "distinct (comboItems \<lparr>comboItems = [''cycles'', ''instructions'', ''cache-misses''],
                         currentIndex = 0, editText = ''instructions''\<rparr>)"
    by simp
  show ?thesis
    using d rememberCombobox_front_unique_capped[of Map.empty configGroup "''eventType''"
        "''instructions''"
        "\<lparr>comboItems = [''cycles'', ''instructions'', ''cache-misses''],
          currentIndex = 0, editText = ''instructions''\<rparr>"]
    by simp
qed

subsection \<open>Merging a snapshot into the process table\<close>

lemma map_filter_fixed: "(\<And>x. x \<in> set xs \<Longrightarrow> f x = Some x) \<Longrightarrow> List.map_filter f xs = xs"
  by (induction xs) (simp_all add: List.map_filter_simps)

lemma set_map_filter: "set (List.map_filter f xs) = {y. \<exists>x \<in> set xs. f x = Some y}"
  by (induction xs) (auto simp: List.map_filter_simps split: option.splits)

lemma lookupProcess_None: "lookupProcess p rs = None \<longleftrightarrow> p \<notin> processId ` set rs"
  by (auto simp: lookupProcess_def find_None_iff)

lemma lookupProcess_Some_pid: "lookupProcess p rs = Some r \<Longrightarrow> processId r = p \<and> r \<in> set rs"
  by (auto simp: lookupProcess_def find_Some_iff)

lemma lookupProcess_distinct:
  "distinct (map processId rs) \<Longrightarrow> r \<in> set rs \<Longrightarrow> lookupProcess (processId r) rs = Some r"
  by (induction rs) (auto simp: lookupProcess_def)

text \<open>A row that a merge with \<open>S\<close> has updated is not changed by another update from \<open>S\<close>.\<close>

lemma updateRow_kept:
  assumes "k \<in> set (List.map_filter (updateRow S) T)"
  shows "updateRow S k = Some k"
proof -
  from assms obtain old where old: "old \<in> set T" "updateRow S old = Some k"
    by (auto simp: set_map_filter)
  then obtain new where new: "lookupProcess (processId old) S = Some new"
    "k = old\<lparr>procName := procName new, procState := procState new\<rparr>"
    by (auto simp: updateRow_def split: option.splits)
  then show ?thesis by (simp add: updateRow_def)
qed

lemma updateRow_fresh:
  assumes "distinct (map processId S)" "n \<in> set S"
  shows "updateRow S n = Some n"
  using lookupProcess_distinct[OF assms] by (simp add: updateRow_def)

text \<open>After a merge the table holds the process ids of the snapshot, no more and no fewer.\<close>

lemma pids_mergeProcesses: "processId ` set (mergeProcesses T S) = processId ` set S"
proof (rule set_eqI, rule iffI)
  fix p assume "p \<in> processId ` set (mergeProcesses T S)"
  then obtain r where r: "r \<in> set (mergeProcesses T S)" "processId r = p" by auto
  then consider "r \<in> set (List.map_filter (updateRow S) T)" | "r \<in> set S"
    by (auto simp: mergeProcesses_def)
  then show "p \<in> processId ` set S"
  proof cases
    case 1
    then obtain old where "old \<in> set T" "updateRow S old = Some r" by (auto simp: set_map_filter)
    then have "lookupProcess (processId old) S \<noteq> None" "processId r = processId old"
      by (auto simp: updateRow_def split: option.splits)
    with r show ?thesis by (simp add: lookupProcess_None)
  next
    case 2
    with r show ?thesis by auto
  qed
next
  fix p assume "p \<in> processId ` set S"
  then obtain n where n: "n \<in> set S" "processId n = p" by auto
  show "p \<in> processId ` set (mergeProcesses T S)"
  proof (cases "lookupProcess p T")
    case None
    with n have "n \<in> set (mergeProcesses T S)" by (simp add: mergeProcesses_def)
    with n show ?thesis by auto
  next
    case (Some old)
    then have old: "processId old = p" "old \<in> set T" by (auto dest: lookupProcess_Some_pid)
    from n have "lookupProcess p S \<noteq> None" by (auto simp: lookupProcess_None)
    then obtain new where "lookupProcess p S = Some new" by auto
    with old have "updateRow S old = Some (old\<lparr>procName := procName new, procState := procState new\<rparr>)"
      by (simp add: updateRow_def)
    with old have "old\<lparr>procName := procName new, procState := procState new\<rparr>
        \<in> set (mergeProcesses T S)"
      by (auto simp: mergeProcesses_def set_map_filter)
    then have "processId (old\<lparr>procName := procName new, procState := procState new\<rparr>)
        \<in> processId ` set (mergeProcesses T S)"
      by (rule imageI)
    with old show ?thesis by simp
  qed
qed

text \<open>
  C9. For a snapshot in which every process id occurs once (the process id is the key of a
  snapshot): merging the snapshot a second time, with nothing done to the table in between,
  gives the table of the first merge.
\<close>

theorem mergeProcesses_idempotent:
  assumes "distinct (map processId S)"
  shows "mergeProcesses (mergeProcesses T S) S = mergeProcesses T S"
proof -
  let ?K = "List.map_filter (updateRow S) T"
  let ?F = "filter (\<lambda>new. lookupProcess (processId new) T = None) S"
  have T': "mergeProcesses T S = ?K @ ?F" by (rule mergeProcesses_def)
  have fixed: "List.map_filter (updateRow S) (?K @ ?F) = ?K @ ?F"
  proof (rule map_filter_fixed)
    fix x assume "x \<in> set (?K @ ?F)"
    then consider "x \<in> set ?K" | "x \<in> set S" by auto
    then show "updateRow S x = Some x"
      by cases (simp_all add: updateRow_kept updateRow_fresh[OF assms])
  qed
  have none: "filter (\<lambda>new. lookupProcess (processId new) (mergeProcesses T S) = None) S = []"
    by (simp add: filter_empty_conv lookupProcess_None pids_mergeProcesses)
  have "mergeProcesses (mergeProcesses T S) S
          = List.map_filter (updateRow S) (mergeProcesses T S)
            @ filter (\<lambda>new. lookupProcess (processId new) (mergeProcesses T S) = None) S"
    by (rule mergeProcesses_def)
  also have "\<dots> = ?K @ ?F" using fixed none by (simp add: T')
  finally show ?thesis by (simp add: T')
qed

theorem mergeProcesses_idempotent_witness:
  "distinct (map processId [\<lparr>processId = 1, procName = ''init'', procState = Running\<rparr>,
                            \<lparr>processId = 7, procName = ''perf'', procState = Running\<rparr>])
   \<and> mergeProcesses
       (mergeProcesses [\<lparr>processId = 3, procName = ''sh'', procState = Zombie\<rparr>,
                        \<lparr>processId = 1, procName = ''init'', procState = Sleeping\<rparr>]
          [\<lparr>processId = 1, procName = ''init'', procState = Running\<rparr>,
           \<lparr>processId = 7, procName = ''perf'', procState = Running\<rparr>])
       [\<lparr>processId = 1, procName = ''init'', procState = Running\<rparr>,
        \<lparr>processId = 7, procName = ''perf'', procState = Running\<rparr>]
     = [\<lparr>processId = 1, procName = ''init'', procState = Running\<rparr>,
        \<lparr>processId = 7, procName = ''perf'', procState = Running\<rparr>]"
proof -
  have d: "distinct (map processId [\<lparr>processId = 1, procName = ''init'', procState = Running\<rparr>,
                            \<lparr>processId = 7, procName = ''perf'', procState = Running\<rparr>])"
    by simp
  have m: "mergeProcesses [\<lparr>processId = 3, procName = ''sh'', procState = Zombie\<rparr>,
                        \<lparr>processId = 1, procName = ''init'', procState = Sleeping\<rparr>]
          [\<lparr>processId = 1, procName = ''init'', procState = Running\<rparr>,
           \<lparr>processId = 7, procName = ''perf'', procState = Running\<rparr>]
       = [\<lparr>processId = 1, procName = ''init'', procState = Running\<rparr>,
        \<lparr>processId = 7, procName = ''perf'', procState = Running\<rparr>]"
    by (simp add: mergeProcesses_def updateRow_def lookupProcess_def List.map_filter_simps)
  show ?thesis
    using d m mergeProcesses_idempotent[OF d,
        of "[\<lparr>processId = 3, procName = ''sh'', procState = Zombie\<rparr>,
             \<lparr>processId = 1, procName = ''init'', procState = Sleeping\<rparr>]"]
    by simp
qed


subsection \<open>At most one snapshot request\<close>

text \<open>
  A step adds to the outstanding requests and pending timers only when it takes the page to
  the attach mode, and then by one.
\<close>

lemma pending_step:
  "pending (step env e s) \<le> pending s +
     (if e = SelectRecordType AttachToProcess \<and> recordTypeEnabled s \<and> recordType s \<noteq> AttachToProcess
      then 1 else 0)"
proof (cases e)
  case (SelectRecordType rt)
  then show ?thesis
    by (cases rt)
       (simp_all add: pending_def selectRecordType_def onRecordTypeChanged_def Let_def
          frame_updateStart updateProcesses_def)
next
  case (SnapshotReturned i result)
  have "length (removeAll i (running s)) < length (running s)" if "i \<in> set (running s)"
    using that by (simp add: length_removeAll_less)
  then show ?thesis using SnapshotReturned
    by (auto simp: pending_def snapshotReturned_def Let_def updateProcessesFinished_def
        frame_updateStart frame_mergeIntoProcessModel)
next
  case TimerDue
  then show ?thesis
    by (simp add: pending_def timerDue_def updateProcesses_def split: list.splits)
qed (simp_all add: pending_def frame_editApplicationName frame_setWorkingDirectoryText
      frame_setOutputFileText frame_onOutputFileNameSelected onOutputFileUrlChanged_def
      onSelectionChanged_def frame_updateStart clickStart_def frame_setStartChecked
      recordingFinished_def recordingFailed_def recordingOutput_def Let_def timePasses_def)

lemma pending_step_count:
  "pending (step env e s) \<le> pending s + (if e = SelectRecordType AttachToProcess then 1 else 0)"
proof -
  have "pending (step env e s) \<le> pending s +
     (if e = SelectRecordType AttachToProcess \<and> recordTypeEnabled s \<and> recordType s \<noteq> AttachToProcess
      then 1 else 0)"
    by (rule pending_step)
  also have "\<dots> \<le> pending s + (if e = SelectRecordType AttachToProcess then 1 else 0)"
    by simp
  finally show ?thesis .
qed

lemma pending_run: "pending (run env evs s) \<le> pending s + attachRequests evs"
proof (induction evs arbitrary: s)
  case Nil
  then show ?case by simp
next
  case (Cons e es)
  have "pending (run env es (step env e s)) \<le> pending (step env e s) + attachRequests es"
    by (rule Cons.IH)
  also have "\<dots> \<le> pending s + (if e = SelectRecordType AttachToProcess then 1 else 0)
      + attachRequests es"
    using pending_step_count[of env e s] by (rule add_right_mono)
  finally show ?case by simp
qed

lemma pending_step_idle:
  assumes "pending s \<le> 1"
    and "e = SelectRecordType AttachToProcess \<and> recordTypeEnabled s \<and> recordType s \<noteq> AttachToProcess
         \<longrightarrow> running s = [] \<and> timers s = []"
  shows "pending (step env e s) \<le> 1"
proof (cases "e = SelectRecordType AttachToProcess \<and> recordTypeEnabled s \<and> recordType s \<noteq> AttachToProcess")
  case True
  with assms(2) have "pending s = 0" by (simp add: pending_def)
  with pending_step[of env e s] True show ?thesis by simp
next
  case False
  with pending_step[of env e s] have "pending (step env e s) \<le> pending s" by simp
  with assms(1) show ?thesis by simp
qed

lemma pending_run_idle:
  "pending s \<le> 1 \<Longrightarrow> switchesWhenIdle env evs s \<Longrightarrow> pending (run env (take n evs) s) \<le> 1"
proof (induction evs arbitrary: s n)
  case Nil
  then show ?case by simp
next
  case (Cons e es)
  show ?case
  proof (cases n)
    case 0
    with Cons.prems show ?thesis by simp
  next
    case (Suc m)
    from Cons.prems have p: "pending (step env e s) \<le> 1"
      by (intro pending_step_idle) simp_all
    from Cons.prems have "switchesWhenIdle env es (step env e s)" by simp
    from Cons.IH[OF p this, of m] Suc show ?thesis by simp
  qed
qed

text \<open>
  C1, as claimed: whatever the user does, switching to the attach mode, away and back
  included, no snapshot request is made while another has not returned. The code makes a
  request on every change to the attach mode: after attach, launch, attach, with the first
  request still running, requests 0 and 1 are both outstanding.
\<close>

theorem second_request_while_first_outstanding:
  "running (run exampleEnv
     [SelectRecordType AttachToProcess, SelectRecordType LaunchApplication,
      SelectRecordType AttachToProcess] examplePage) = [0, 1]
   \<and> \<not> length (running (run exampleEnv
     [SelectRecordType AttachToProcess, SelectRecordType LaunchApplication,
      SelectRecordType AttachToProcess] examplePage)) \<le> 1"
  by (simp add: slot_defs example_defs)

text \<open>
  C1, amended: as long as the user changes to the attach mode only while no request is
  outstanding and no poll timer is pending, at every point of the run at most one snapshot
  request is outstanding.
\<close>

theorem one_request_in_flight_without_reentry:
  assumes "length (running s) + length (timers s) \<le> 1"
    and "switchesWhenIdle env evs s"
  shows "length (running (run env (take n evs) s)) \<le> 1"
proof -
  from assms(1) have "pending s \<le> 1" by (simp add: pending_def)
  from pending_run_idle[OF this assms(2), of n] show ?thesis by (simp add: pending_def)
qed

theorem one_request_in_flight_without_reentry_witness:
  "length (running examplePage) + length (timers examplePage) \<le> 1
   \<and> switchesWhenIdle exampleEnv
       [SelectRecordType AttachToProcess, SnapshotReturned 0 [], TimePasses 1000, TimerDue,
        SelectRecordType LaunchApplication, SnapshotReturned 1 []] examplePage
   \<and> length (running (run exampleEnv (take 4
       [SelectRecordType AttachToProcess, SnapshotReturned 0 [], TimePasses 1000, TimerDue,
        SelectRecordType LaunchApplication, SnapshotReturned 1 []]) examplePage)) \<le> 1
   \<and> running (run exampleEnv
       [SelectRecordType AttachToProcess, SnapshotReturned 0 [], TimePasses 1000, TimerDue]
        examplePage) = [1]"
proof -
  have a: "length (running examplePage) + length (timers examplePage) \<le> 1"
    by (simp add: examplePage_def)
  have b: "switchesWhenIdle exampleEnv
       [SelectRecordType AttachToProcess, SnapshotReturned 0 [], TimePasses 1000, TimerDue,
        SelectRecordType LaunchApplication, SnapshotReturned 1 []] examplePage"
    by (simp add: slot_defs example_defs List.map_filter_simps)
  have c: "running (run exampleEnv
       [SelectRecordType AttachToProcess, SnapshotReturned 0 [], TimePasses 1000, TimerDue]
        examplePage) = [1]"
    by (simp add: slot_defs example_defs List.map_filter_simps)
  from one_request_in_flight_without_reentry[OF a b, of 4] a b c show ?thesis by blast
qed

subsection \<open>The return of a snapshot\<close>

text \<open>
  C2. \<^verbatim>\<open>updateProcessesFinished\<close> merges the result into the process table and makes no
  request itself. When the attach page is shown at that moment it arms one single-shot timer
  due 1000 ms after the moment of completion, otherwise none. The request of that timer is made
  when 1000 ms have passed and not before, and the timer is gone once it has fired.
\<close>

theorem updateProcessesFinished_schedules_next_poll:
  "processes (updateProcessesFinished env result s) = mergeProcesses (processes s) result
   \<and> running (updateProcessesFinished env result s) = running s
   \<and> (currentWidget s = attachAppPage \<longrightarrow>
        timers (updateProcessesFinished env result s) = timers s @ [clock s + 1000])
   \<and> (currentWidget s \<noteq> attachAppPage \<longrightarrow>
        timers (updateProcessesFinished env result s) = timers s)
   \<and> (currentWidget s = attachAppPage \<and> timers s = [] \<longrightarrow>
        running (timerDue (timePasses d (updateProcessesFinished env result s)))
          = (if 1000 \<le> d then running s @ [nextRequest s] else running s)
        \<and> timers (timerDue (timePasses d (updateProcessesFinished env result s)))
          = (if 1000 \<le> d then [] else [clock s + 1000]))"
  by (simp add: updateProcessesFinished_def Let_def updateStartRecordingButtonState_eq
      frame_mergeIntoProcessModel timePasses_def timerDue_def updateProcesses_def)

theorem updateProcessesFinished_schedules_next_poll_witness:
  "currentWidget (examplePage\<lparr>currentWidget := attachAppPage, clock := 250\<rparr>) = attachAppPage
   \<and> timers (examplePage\<lparr>currentWidget := attachAppPage, clock := 250\<rparr>) = []
   \<and> timers (updateProcessesFinished exampleEnv []
        (examplePage\<lparr>currentWidget := attachAppPage, clock := 250\<rparr>)) = [1250]
   \<and> running (timerDue (timePasses 1000 (updateProcessesFinished exampleEnv []
        (examplePage\<lparr>currentWidget := attachAppPage, clock := 250\<rparr>)))) = [0]
   \<and> running (timerDue (timePasses 999 (updateProcessesFinished exampleEnv []
        (examplePage\<lparr>currentWidget := attachAppPage, clock := 250\<rparr>)))) = []
   \<and> currentWidget examplePage \<noteq> attachAppPage
   \<and> timers (updateProcessesFinished exampleEnv [] examplePage) = []"
  using
    updateProcessesFinished_schedules_next_poll[of exampleEnv "[]"
      "examplePage\<lparr>currentWidget := attachAppPage, clock := 250\<rparr>" 1000]
    updateProcessesFinished_schedules_next_poll[of exampleEnv "[]"
      "examplePage\<lparr>currentWidget := attachAppPage, clock := 250\<rparr>" 999]
    updateProcessesFinished_schedules_next_poll[of exampleEnv "[]" examplePage 0]
  by (simp add: examplePage_def)

text \<open>
  While the attach page is not shown, a snapshot that returns arms no timer and makes no
  request; the result of a request the watcher no longer holds is dropped.
\<close>

lemma snapshot_outside_attach_view_schedules_nothing:
  assumes "currentWidget s \<noteq> attachAppPage"
  shows "timers (snapshotReturned env i result s) = timers s"
    and "running (snapshotReturned env i result s) = removeAll i (running s)"
    and "watched s \<noteq> Some i \<Longrightarrow> processes (snapshotReturned env i result s) = processes s"
  using assms
  by (simp_all add: snapshotReturned_def updateProcessesFinished_def Let_def
      frame_mergeIntoProcessModel)

text \<open>
  A merge that removes no selected row, on a page that is not the attach page, changes the
  process table and nothing else.
\<close>

lemma updateProcessesFinished_selection_kept:
  assumes "currentWidget s \<noteq> attachAppPage"
    and "\<forall>item \<in> set (selectedIndexes s).
           lookupProcess (indexProcessId item) (mergeProcesses (processes s) result) \<noteq> None"
  shows "updateProcessesFinished env result s
           = s\<lparr>processes := mergeProcesses (processes s) result\<rparr>"
proof -
  have "filter (\<lambda>item. lookupProcess (indexProcessId item)
                  (mergeProcesses (processes s) result) \<noteq> None) (selectedIndexes s)
          = selectedIndexes s"
    using assms(2) by (simp add: filter_id_conv)
  with assms(1) show ?thesis
    by (simp add: updateProcessesFinished_def mergeIntoProcessModel_def Let_def)
qed

text \<open>
  C3. The claim: a snapshot that returns while the attach page is not shown schedules no poll
  and changes nothing the user observes. The first part holds. For the second, the code
  merges the result before it looks at the page (line 483), and the merge takes a selected row
  whose process has gone out of the selection; the slot connected to \<^verbatim>\<open>selectionChanged\<close>
  (lines 306 to 309) then runs \<^verbatim>\<open>updateStartRecordingButtonState\<close> on the launch page, against
  the comment of line 486. On the example machine: \<^verbatim>\<open>/bin/ls\<close> is entered, process 42 is
  selected on the attach page, the user goes back to the launch page, the pending poll timer
  makes request 1, a recording is started and fails. The launch page is shown and the start
  button is enabled. Request 1 returns without process 42: no timer is armed, and the start
  button is disabled.
\<close>

theorem late_snapshot_disables_start_on_launch_page:
  "currentWidget
     (run exampleEnv
        [EditApplicationName ''/bin/ls'', SelectRecordType AttachToProcess,
         SnapshotReturned 0 [exampleProcess], ChangeSelection [exampleIndex],
         SelectRecordType LaunchApplication, TimePasses 1000, TimerDue, ClickStart,
         RecordingFailed ''perf failed'']
        examplePage) = launchAppPage
   \<and> running
     (run exampleEnv
        [EditApplicationName ''/bin/ls'', SelectRecordType AttachToProcess,
         SnapshotReturned 0 [exampleProcess], ChangeSelection [exampleIndex],
         SelectRecordType LaunchApplication, TimePasses 1000, TimerDue, ClickStart,
         RecordingFailed ''perf failed'']
        examplePage) = [1]
   \<and> startEnabled
     (run exampleEnv
        [EditApplicationName ''/bin/ls'', SelectRecordType AttachToProcess,
         SnapshotReturned 0 [exampleProcess], ChangeSelection [exampleIndex],
         SelectRecordType LaunchApplication, TimePasses 1000, TimerDue, ClickStart,
         RecordingFailed ''perf failed'']
        examplePage)
   \<and> \<not> startEnabled
     (run exampleEnv
        [EditApplicationName ''/bin/ls'', SelectRecordType AttachToProcess,
         SnapshotReturned 0 [exampleProcess], ChangeSelection [exampleIndex],
         SelectRecordType LaunchApplication, TimePasses 1000, TimerDue, ClickStart,
         RecordingFailed ''perf failed'', SnapshotReturned 1 []]
        examplePage)
   \<and> timers
     (run exampleEnv
        [EditApplicationName ''/bin/ls'', SelectRecordType AttachToProcess,
         SnapshotReturned 0 [exampleProcess], ChangeSelection [exampleIndex],
         SelectRecordType LaunchApplication, TimePasses 1000, TimerDue, ClickStart,
         RecordingFailed ''perf failed'', SnapshotReturned 1 []]
        examplePage) = []"
  by (simp add: slot_defs example_defs List.map_filter_simps)

subsection \<open>A recording that fails\<close>

text \<open>
  What \<^verbatim>\<open>recordingFailed\<close> leaves when it arrives while the start button is in its recording
  state: the button is unchecked and labelled for a start again, the mode selector is enabled,
  the error message holds the text of the failure and is shown, the button that opens the
  results is disabled, and the start button is enabled as it was.
\<close>

lemma recordingFailed_fields:
  assumes "startChecked s"
  shows "\<not> startChecked (recordingFailed env errorMessage s)
         \<and> startText (recordingFailed env errorMessage s) = ''Start Recording''
         \<and> recordTypeEnabled (recordingFailed env errorMessage s)
         \<and> errorMessageText (recordingFailed env errorMessage s) = errorMessage
         \<and> errorMessageVisible (recordingFailed env errorMessage s)
         \<and> \<not> viewResultsEnabled (recordingFailed env errorMessage s)
         \<and> startEnabled (recordingFailed env errorMessage s) = startEnabled s"
  using assms by (simp add: recordingFailed_def setStartChecked_False Let_def)

text \<open>
  C4. The claim: after \<^verbatim>\<open>recordingFailed\<close> the page is idle again, the message is shown, the
  button for the results is disabled, and the user is free to retry. The slot puts the text of
  the failure into the message label (line 279), the label whose text
  \<^verbatim>\<open>updateStartRecordingButtonState\<close> requires to be empty (line 84), and nothing clears it. On
  the example machine, in attach mode with process 42 selected, a recording is started and
  fails: the page is idle and the start button still enabled. One second later the next poll
  returns, \<^verbatim>\<open>updateProcessesFinished\<close> runs \<^verbatim>\<open>updateStartRecordingButtonState\<close> (line 487), and
  the start button is disabled although process 42 is still selected; a click on it does
  nothing, and no second recording is started.
\<close>

theorem failed_recording_blocks_retry_in_attach_mode:
  "startEnabled
     (run exampleEnv
        [SelectRecordType AttachToProcess, SnapshotReturned 0 [exampleProcess],
         ChangeSelection [exampleIndex], ClickStart, RecordingFailed ''perf failed'']
        examplePage)
   \<and> \<not> startChecked
     (run exampleEnv
        [SelectRecordType AttachToProcess, SnapshotReturned 0 [exampleProcess],
         ChangeSelection [exampleIndex], ClickStart, RecordingFailed ''perf failed'']
        examplePage)
   \<and> selectedIndexes
     (run exampleEnv
        [SelectRecordType AttachToProcess, SnapshotReturned 0 [exampleProcess],
         ChangeSelection [exampleIndex], ClickStart, RecordingFailed ''perf failed'',
         TimePasses 1000, TimerDue, SnapshotReturned 1 [exampleProcess]]
        examplePage) = [exampleIndex]
   \<and> errorMessageText
     (run exampleEnv
        [SelectRecordType AttachToProcess, SnapshotReturned 0 [exampleProcess],
         ChangeSelection [exampleIndex], ClickStart, RecordingFailed ''perf failed'',
         TimePasses 1000, TimerDue, SnapshotReturned 1 [exampleProcess]]
        examplePage) = ''perf failed''
   \<and> \<not> startEnabled
     (run exampleEnv
        [SelectRecordType AttachToProcess, SnapshotReturned 0 [exampleProcess],
         ChangeSelection [exampleIndex], ClickStart, RecordingFailed ''perf failed'',
         TimePasses 1000, TimerDue, SnapshotReturned 1 [exampleProcess]]
        examplePage)
   \<and> perfRecord
     (run exampleEnv
        [SelectRecordType AttachToProcess, SnapshotReturned 0 [exampleProcess],
         ChangeSelection [exampleIndex], ClickStart, RecordingFailed ''perf failed'',
         TimePasses 1000, TimerDue, SnapshotReturned 1 [exampleProcess], ClickStart]
        examplePage)
     = [RecordAttach [''--call-graph'', ''dwarf''] ''/tmp/perf.data'' [''42''], StopRecording]"
  by (simp add: slot_defs example_defs List.map_filter_simps)

subsection \<open>What the recorder is handed at a start\<close>

text \<open>
  At a start the recorder is called once. Its option list is \<^verbatim>\<open>--call-graph\<close> and the unwind
  method when the method is not empty, then \<^verbatim>\<open>--event\<close> and the event type when the event
  type is not empty. In launch mode the call has the output path, the tilde-expanded text of
  the application field, the shell-split parameters and the working directory, for which the
  placeholder of the working directory field is taken when the field is empty. In attach mode
  the call has the output path and the process ids of the selected indexes of column 0.
\<close>

lemma start_recording_hands_over:
  "perfRecord (onStartRecordingButtonClicked env True s) = perfRecord s @
     [let perfOptions =
            (if callGraphData s \<noteq> [] then [''--call-graph'', callGraphData s] else [])
            @ (if editText (eventTypeBox s) \<noteq> []
               then [''--event'', editText (eventTypeBox s)] else []);
          outputPath = toLocalFile env (requesterUrl env (outputFile s))
      in if recordType s = LaunchApplication
         then RecordLaunch perfOptions outputPath
                (tildeExpand env (editText (applicationName s)))
                (splitArgs env (applicationParametersBox s))
                (if workingDirectory s = [] then workingDirectoryPlaceholder s
                 else workingDirectory s)
         else RecordAttach perfOptions outputPath
                (map pidRoleData (filter (\<lambda>item. indexColumn item = 0) (selectedIndexes s)))]
   \<and> (followedBy ''--call-graph'' (callGraphData s)
         (perfOptionsOf (last (perfRecord (onStartRecordingButtonClicked env True s))))
        \<longleftrightarrow> callGraphData s \<noteq> [])
   \<and> (followedBy ''--event'' (editText (eventTypeBox s))
         (perfOptionsOf (last (perfRecord (onStartRecordingButtonClicked env True s))))
        \<longleftrightarrow> editText (eventTypeBox s) \<noteq> [])"
  by (simp add: onStartRecordingButtonClicked_def Let_def case_prod_beta showRecordPage_def
      frame_rememberApplication followedBy_def)

text \<open>
  When \<^verbatim>\<open>onApplicationNameChanged\<close> accepts an executable, it makes the directory of that
  executable the placeholder of the working directory field (line 411); a recording started
  in that state with an empty working directory field runs in the directory of the
  executable.
\<close>

lemma onApplicationNameChanged_placeholder:
  assumes "fileExists env (findExecutable env (tildeExpand env filePath))"
    and "fileIsFile env (findExecutable env (tildeExpand env filePath))"
    and "fileIsExecutable env (findExecutable env (tildeExpand env filePath))"
  shows "workingDirectoryPlaceholder (onApplicationNameChanged env filePath s)
           = fileInfoPath env (findExecutable env (tildeExpand env filePath))"
  using assms
  by (simp add: onApplicationNameChanged_def Let_def updateStartRecordingButtonState_eq)

lemma accepted_executable_runs_in_its_directory:
  assumes "fileExists env (findExecutable env (tildeExpand env filePath))"
    and "fileIsFile env (findExecutable env (tildeExpand env filePath))"
    and "fileIsExecutable env (findExecutable env (tildeExpand env filePath))"
    and "recordType (onApplicationNameChanged env filePath s) = LaunchApplication"
    and "workingDirectory (onApplicationNameChanged env filePath s) = []"
  shows "\<exists>opts out exe args.
           last (perfRecord (onStartRecordingButtonClicked env True
                   (onApplicationNameChanged env filePath s)))
             = RecordLaunch opts out exe args
                 (fileInfoPath env (findExecutable env (tildeExpand env filePath)))"
  using assms(4,5) onApplicationNameChanged_placeholder[OF assms(1,2,3), of s]
    start_recording_hands_over[of env "onApplicationNameChanged env filePath s"]
  by (simp add: Let_def)

text \<open>
  C6. The claim: at every start in launch mode the recorder is handed, with the options, the
  output path, the executable and its arguments, the working directory, which is the
  directory of the executable when the field is empty. The code takes the placeholder of the
  field (line 369), which \<^verbatim>\<open>onApplicationNameChanged\<close> sets when it accepts an executable and
  leaves alone when it rejects one; a rejected executable is meant to keep the start button
  disabled (lines 401 to 406, line 84), but the good edit of another field clears the message
  label. On the example machine: \<^verbatim>\<open>/bin/ls\<close> is entered and accepted, then \<^verbatim>\<open>/opt/app\<close>,
  which is not found; editing the output file to a good path clears the error message and
  enables the start button; at the start the recorder is handed \<^verbatim>\<open>/opt/app\<close> with the working
  directory \<^verbatim>\<open>/bin\<close>.
\<close>

theorem start_recording_stale_working_directory:
  "perfRecord
     (run exampleEnv
        [EditApplicationName ''/bin/ls'', EditApplicationName ''/opt/app'',
         EditOutputFile ''/tmp/out.data'', ClickStart]
        examplePage)
     = [RecordLaunch [''--call-graph'', ''dwarf''] ''/tmp/out.data'' ''/opt/app'' [] ''/bin'']
   \<and> workingDirectory
       (run exampleEnv
          [EditApplicationName ''/bin/ls'', EditApplicationName ''/opt/app'',
           EditOutputFile ''/tmp/out.data'']
          examplePage) = []
   \<and> fileInfoPath exampleEnv (tildeExpand exampleEnv ''/opt/app'') = ''/opt''"
  by (simp add: slot_defs example_defs)

end
